theory Spec2Isabelle
  imports Complex_Main
begin

section \<open>Bill totals: \<open>src/routes/billpage.ts\<close>\<close>

text \<open>
  The route computes money with \<open>decimal.js\<close>. A \<open>Decimal\<close> is modelled by the rational
  number it denotes: \<open>mul\<close>, \<open>div\<close> and \<open>plus\<close> are the exact field operations (the library
  rounds a result only beyond 20 significant digits, which amounts of money do not reach),
  and \<open>toNumber\<close> of a value with two decimal places is read as that value.

  \<open>toDecimalPlaces\<close> is called without a rounding mode and the library's configuration is
  never changed, so it rounds with the default mode \<open>ROUND_HALF_UP\<close>: to the nearest
  neighbour, and away from zero when both neighbours are equally near.
\<close>

type_synonym decimal = rat

definition toDecimalPlaces :: "nat \<Rightarrow> decimal \<Rightarrow> decimal" where
  "toDecimalPlaces dp x =
     (if 0 \<le> x then of_int \<lfloor>x * 10 ^ dp + 1 / 2\<rfloor> / 10 ^ dp
      else - (of_int \<lfloor>- x * 10 ^ dp + 1 / 2\<rfloor> / 10 ^ dp))"

text \<open>\<^verbatim>\<open>const round = (val: Decimal): number => val.toDecimalPlaces(2).toNumber();\<close>\<close>

definition round2 :: "decimal \<Rightarrow> rat" where
  "round2 val = toDecimalPlaces 2 val"

text \<open>
  A rate of the request or of a stored bill is \<open>number | null | undefined\<close>: \<open>None\<close> stands
  for both \<open>null\<close> and \<open>undefined\<close>. The conditional \<^verbatim>\<open>taxRates.vatLow ? ... : new Decimal(0)\<close>
  tests the rate for truthiness, so \<open>0\<close> takes the second branch as \<open>null\<close> does.
\<close>

record taxRates =
  vatLow :: "rat option"
  vatHigh :: "rat option"
  serviceTax :: "rat option"
  serviceCharge :: "rat option"

record totals =
  vatLowAmount :: rat
  vatHighAmount :: rat
  serviceTaxAmount :: rat
  serviceChargeAmount :: rat
  totalAmount :: rat

fun truthy :: "rat option \<Rightarrow> bool" where
  "truthy None = False"
| "truthy (Some r) = (r \<noteq> 0)"

definition calculateTotals :: "decimal \<Rightarrow> taxRates \<Rightarrow> totals" where
  "calculateTotals baseAmount rates =
     (let vatLowAmount' =
            (if truthy (vatLow rates) then baseAmount * the (vatLow rates) / 100 else 0);
          vatHighAmount' =
            (if truthy (vatHigh rates) then baseAmount * the (vatHigh rates) / 100 else 0);
          serviceTaxAmount' =
            (if truthy (serviceTax rates) then baseAmount * the (serviceTax rates) / 100 else 0);
          serviceChargeAmount' =
            (if truthy (serviceCharge rates)
             then baseAmount * the (serviceCharge rates) / 100 else 0)
      in \<lparr> vatLowAmount = round2 vatLowAmount',
           vatHighAmount = round2 vatHighAmount',
           serviceTaxAmount = round2 serviceTaxAmount',
           serviceChargeAmount = round2 serviceChargeAmount',
           totalAmount =
             round2 (vatLowAmount' + vatHighAmount' + serviceTaxAmount'
                     + serviceChargeAmount' + baseAmount) \<rparr>)"

text \<open>The contribution of a rate as the specification words it: an absent rate counts as zero.\<close>

fun rateOf :: "rat option \<Rightarrow> rat" where
  "rateOf None = 0"
| "rateOf (Some r) = r"

text \<open>The order on rates under which a rate "is increased": \<open>null\<close> is the least rate.\<close>

definition rate_le :: "rat option \<Rightarrow> rat option \<Rightarrow> bool" where
  "rate_le r r' = (rateOf r \<le> rateOf r')"

definition rate_ok :: "rat option \<Rightarrow> bool" where
  "rate_ok r = (0 \<le> rateOf r \<and> rateOf r \<le> 100)"

definition rates_ok :: "taxRates \<Rightarrow> bool" where
  "rates_ok rates =
     (rate_ok (vatLow rates) \<and> rate_ok (vatHigh rates) \<and>
      rate_ok (serviceTax rates) \<and> rate_ok (serviceCharge rates))"

definition rates_le :: "taxRates \<Rightarrow> taxRates \<Rightarrow> bool" where
  "rates_le r r' =
     (rate_le (vatLow r) (vatLow r') \<and> rate_le (vatHigh r) (vatHigh r') \<and>
      rate_le (serviceTax r) (serviceTax r') \<and> rate_le (serviceCharge r) (serviceCharge r'))"

section \<open>The datastore\<close>

text \<open>
  The Prisma schema is not part of the sources; the entities carry the fields the handlers read
  and write. Money and rates are the numbers the handlers pass to \<open>Decimal\<close>; a nullable column
  is an \<open>option\<close>; timestamps are milliseconds since the epoch. The rows of a table are a list in
  the order in which \<open>findMany\<close> returns them, and the items of an order are kept with the order.
\<close>

record orderItem =
  item_productId :: "nat option"
  item_name :: string
  item_price :: rat
  item_quantity :: int
  item_status :: string

record order =
  order_id :: nat
  order_businessId :: nat
  order_status :: string
  order_totalAmount :: rat
  order_items :: "orderItem list"

record bill =
  bill_id :: nat
  bill_orderId :: nat
  bill_businessId :: nat
  bill_totalAmount :: rat
  bill_vatLow :: "rat option"
  bill_vatHigh :: "rat option"
  bill_serviceTax :: "rat option"
  bill_serviceCharge :: "rat option"
  billStoreLink :: "string option"
  billStorePublicId :: "string option"
  modifiedBillStoreLink :: "string option"
  modifiedBillStorePublicId :: "string option"
  expiresAt :: "int option"

record db =
  orders :: "order list"
  bills :: "bill list"
  billSeq :: nat

datatype body =
    ErrorBody string
  | MessageBody string
  | BillBody bill string
  | BillWithItems bill "orderItem list"
  | OrderStatusBody order string
  | ItemStatusBody nat string string
  | OrderBody order string

datatype response = Response (code: nat) (payload: body)

text \<open>\<open>prisma.order.findUnique({ where: { id } })\<close> and \<open>prisma.bill.findUnique({ where: { orderId } })\<close>.\<close>

definition findOrder :: "db \<Rightarrow> nat \<Rightarrow> order option" where
  "findOrder d oid = find (\<lambda>ord. order_id ord = oid) (orders d)"

definition findBill :: "db \<Rightarrow> nat \<Rightarrow> bill option" where
  "findBill d oid = find (\<lambda>b. bill_orderId b = oid) (bills d)"

definition updateOrder :: "nat \<Rightarrow> (order \<Rightarrow> order) \<Rightarrow> db \<Rightarrow> db" where
  "updateOrder oid f d =
     d\<lparr>orders := map (\<lambda>ord. if order_id ord = oid then f ord else ord) (orders d)\<rparr>"

definition updateBill :: "nat \<Rightarrow> (bill \<Rightarrow> bill) \<Rightarrow> db \<Rightarrow> db" where
  "updateBill oid f d =
     d\<lparr>bills := map (\<lambda>b. if bill_orderId b = oid then f b else b) (bills d)\<rparr>"

text \<open>
  \<open>prisma.bill.create\<close>: the row gets the next value of the autoincrement sequence. The callers
  below create a bill only after \<open>findBill\<close> has returned nothing, or treat the unique
  constraint on \<open>orderId\<close> as the exception that it raises.
\<close>

definition createBillRow :: "bill \<Rightarrow> db \<Rightarrow> db" where
  "createBillRow b d =
     d\<lparr>bills := bills d @ [b\<lparr>bill_id := Suc (billSeq d)\<rparr>], billSeq := Suc (billSeq d)\<rparr>"

definition emptyBill :: "nat \<Rightarrow> nat \<Rightarrow> rat \<Rightarrow> bill" where
  "emptyBill oid bid newTotal =
     \<lparr>bill_id = 0, bill_orderId = oid, bill_businessId = bid, bill_totalAmount = newTotal,
      bill_vatLow = None, bill_vatHigh = None, bill_serviceTax = None, bill_serviceCharge = None,
      billStoreLink = None, billStorePublicId = None,
      modifiedBillStoreLink = None, modifiedBillStorePublicId = None, expiresAt = None\<rparr>"

text \<open>The rates stored on a bill, as the handlers hand them to \<open>calculateTotals\<close>.\<close>

definition billRates :: "bill \<Rightarrow> taxRates" where
  "billRates b =
     \<lparr>vatLow = bill_vatLow b, vatHigh = bill_vatHigh b,
      serviceTax = bill_serviceTax b, serviceCharge = bill_serviceCharge b\<rparr>"

text \<open>
  \<^verbatim>\<open>order.items.reduce((sum, item) => sum.plus(new Decimal(item.price).mul(item.quantity)),
      new Decimal(0))\<close>
\<close>

definition baseAmountOf :: "orderItem list \<Rightarrow> decimal" where
  "baseAmountOf items =
     foldl (\<lambda>sum item. sum + item_price item * of_int (item_quantity item)) 0 items"

text \<open>
  \<open>parseOrderId\<close> gives \<open>null\<close> for a missing or non-numeric parameter, and each handler
  answers 400 when \<open>!orderId\<close>, which also refuses the id 0. The parameter is modelled by the
  parsed number. \<open>req.businessOwner?.businessId\<close> is refused by \<open>!businessId\<close> in the same way.
\<close>

fun falsyId :: "nat option \<Rightarrow> bool" where
  "falsyId None = True"
| "falsyId (Some n) = (n = 0)"

text \<open>
  The value \<open>x ?? undefined\<close> in the \<open>data\<close> of an update: Prisma leaves the column as it is
  when the value is \<open>undefined\<close>, so a rate that the request omits or sends as \<open>null\<close> keeps
  the stored rate.
\<close>

fun orKeep :: "'a option \<Rightarrow> 'a option \<Rightarrow> 'a option" where
  "orKeep None stored = stored"
| "orKeep (Some v) stored = Some v"

subsection \<open>POST /bill\<close>

text \<open>
  \<open>createBillSchema\<close>: each rate is a number between 0 and 100, or null, or absent. The bill is
  created and the order updated in one transaction; \<open>tx.bill.create\<close> raises when the order
  already has a bill, the transaction is rolled back and the handler answers 400.
\<close>

definition createBill :: "nat option \<Rightarrow> nat \<Rightarrow> taxRates \<Rightarrow> db \<Rightarrow> db \<times> response" where
  "createBill businessId orderId rates d =
     (if \<not> rates_ok rates then (d, Response 400 (ErrorBody ''validation''))
      else if falsyId businessId
      then (d, Response 401 (ErrorBody ''Unauthorized: Missing businessId''))
      else
        (case findOrder d orderId of
           None \<Rightarrow> (d, Response 403 (ErrorBody ''Unauthorized to create bill for this order''))
         | Some ord \<Rightarrow>
             if order_businessId ord = the businessId then
               (let baseAmount = baseAmountOf (order_items ord);
                    newTotal = totalAmount (calculateTotals baseAmount rates)
                in case findBill d orderId of
                     Some existing \<Rightarrow> (d, Response 400 (ErrorBody ''Unique constraint failed''))
                   | None \<Rightarrow>
                       (let d1 = createBillRow
                                   ((emptyBill orderId (the businessId) newTotal)
                                      \<lparr>bill_vatLow := vatLow rates, bill_vatHigh := vatHigh rates,
                                       bill_serviceTax := serviceTax rates,
                                       bill_serviceCharge := serviceCharge rates\<rparr>) d;
                            d2 = updateOrder orderId
                                   (\<lambda>x. x\<lparr>order_status := ''Completed'',
                                           order_totalAmount := newTotal\<rparr>) d1
                        in (d2, Response 201 (BillBody (last (bills d1)) ''Bill created successfully''))))
             else (d, Response 403 (ErrorBody ''Unauthorized to create bill for this order''))))"

subsection \<open>PUT /bill/:orderId/update-charges\<close>

text \<open>
  The body is read without a schema. \<open>tx.bill.update\<close> raises when the order has no bill, and
  the handler answers 400. The test \<open>!order.items\<close> never holds, since \<open>include: { items: true }\<close>
  always gives an array.
\<close>

definition updateCharges ::
  "nat option \<Rightarrow> nat option \<Rightarrow> taxRates \<Rightarrow> db \<Rightarrow> db \<times> response" where
  "updateCharges businessId orderId rates d =
     (if falsyId orderId then (d, Response 400 (ErrorBody ''Invalid order ID''))
      else if falsyId businessId
      then (d, Response 401 (ErrorBody ''Unauthorized: Missing businessId''))
      else
        (case findOrder d (the orderId) of
           None \<Rightarrow> (d, Response 403 (ErrorBody ''Unauthorized to update charges''))
         | Some ord \<Rightarrow>
             if order_businessId ord = the businessId then
               (let baseAmount = baseAmountOf (order_items ord);
                    newTotal = totalAmount (calculateTotals baseAmount rates)
                in case findBill d (the orderId) of
                     None \<Rightarrow> (d, Response 400 (ErrorBody ''Record to update not found''))
                   | Some existing \<Rightarrow>
                       (let d1 = updateBill (the orderId)
                                   (\<lambda>b. b\<lparr>bill_vatLow := orKeep (vatLow rates) (bill_vatLow b),
                                           bill_vatHigh := orKeep (vatHigh rates) (bill_vatHigh b),
                                           bill_serviceTax :=
                                             orKeep (serviceTax rates) (bill_serviceTax b),
                                           bill_serviceCharge :=
                                             orKeep (serviceCharge rates) (bill_serviceCharge b),
                                           bill_totalAmount := newTotal\<rparr>) d;
                            d2 = updateOrder (the orderId)
                                   (\<lambda>x. x\<lparr>order_totalAmount := newTotal\<rparr>) d1
                        in (d2, Response 200
                                  (BillBody (the (findBill d1 (the orderId)))
                                     ''Charges updated successfully''))))
             else (d, Response 403 (ErrorBody ''Unauthorized to update charges''))))"

subsection \<open>PUT /bill/:orderId/store-link\<close>

record storeLinkBody =
  sl_billStoreLink :: string
  sl_cloudinaryPublicId :: string
  sl_isModified :: "bool option"

text \<open>
  \<open>storeLinkSchema\<close>: both strings are required, and Joi refuses an empty string. The syntax
  check of the URI is not modelled.
\<close>

definition storeLinkSchema :: "storeLinkBody \<Rightarrow> bool" where
  "storeLinkSchema b = (sl_billStoreLink b \<noteq> [] \<and> sl_cloudinaryPublicId b \<noteq> [])"

definition setLink :: "storeLinkBody \<Rightarrow> int \<Rightarrow> bill \<Rightarrow> bill" where
  "setLink b expires x =
     (if sl_isModified b = Some True
      then x\<lparr>modifiedBillStoreLink := Some (sl_billStoreLink b),
             modifiedBillStorePublicId := Some (sl_cloudinaryPublicId b),
             expiresAt := Some expires\<rparr>
      else x\<lparr>billStoreLink := Some (sl_billStoreLink b),
             billStorePublicId := Some (sl_cloudinaryPublicId b),
             expiresAt := Some expires\<rparr>)"

definition storeLink ::
  "int \<Rightarrow> nat option \<Rightarrow> nat option \<Rightarrow> storeLinkBody \<Rightarrow> db \<Rightarrow> db \<times> response" where
  "storeLink now businessId orderId b d =
     (if \<not> storeLinkSchema b then (d, Response 400 (ErrorBody ''validation''))
      else if falsyId orderId then (d, Response 400 (ErrorBody ''Invalid order ID''))
      else if falsyId businessId
      then (d, Response 401 (ErrorBody ''Unauthorized: Missing businessId''))
      else
        (case findOrder d (the orderId) of
           None \<Rightarrow> (d, Response 403 (ErrorBody ''Unauthorized or order not found''))
         | Some ord \<Rightarrow>
             if order_businessId ord = the businessId then
               (let expires = now + 24 * 60 * 60 * 1000
                in case findBill d (the orderId) of
                     Some existingBill \<Rightarrow>
                       (updateBill (the orderId) (setLink b expires) d,
                        Response 200 (MessageBody ''Bill store link updated successfully''))
                   | None \<Rightarrow>
                       (let baseAmount = baseAmountOf (order_items ord);
                            newTotal = round2 baseAmount
                        in (createBillRow
                              (setLink b expires
                                 (emptyBill (the orderId) (the businessId) newTotal)) d,
                            Response 201 (MessageBody ''Bill created with store link''))))
             else (d, Response 403 (ErrorBody ''Unauthorized or order not found''))))"

subsection \<open>PUT /bill/:orderId/update-items\<close>

record itemInput =
  in_productId :: "nat option"
  in_name :: string
  in_price :: rat
  in_quantity :: int

text \<open>\<open>updateItemsSchema\<close>: a name, a price of at least 0 and an integer quantity of at least 1.\<close>

definition updateItemsSchema :: "itemInput list \<Rightarrow> bool" where
  "updateItemsSchema items =
     list_all (\<lambda>i. in_name i \<noteq> [] \<and> 0 \<le> in_price i \<and> 1 \<le> in_quantity i) items"

text \<open>
  Modelled from the spec: the default of the \<open>status\<close> column of an order item, which the
  schema (not among the sources) gives to the rows that \<open>createMany\<close> inserts without a status.
  The data model has the two statuses \<open>Pending\<close> and \<open>Completed\<close>, and a new item is \<open>Pending\<close>.
\<close>

definition defaultItemStatus :: string where
  "defaultItemStatus = ''Pending''"

text \<open>\<open>productId: item.productId || null\<close> stores null for the id 0 as for a missing id.\<close>

definition newItem :: "itemInput \<Rightarrow> orderItem" where
  "newItem i =
     \<lparr>item_productId = (if falsyId (in_productId i) then None else in_productId i),
      item_name = in_name i, item_price = in_price i, item_quantity = in_quantity i,
      item_status = defaultItemStatus\<rparr>"

definition inputBaseAmount :: "itemInput list \<Rightarrow> decimal" where
  "inputBaseAmount items =
     foldl (\<lambda>sum item. sum + in_price item * of_int (in_quantity item)) 0 items"

definition updateItems ::
  "nat option \<Rightarrow> nat option \<Rightarrow> itemInput list \<Rightarrow> db \<Rightarrow> db \<times> response" where
  "updateItems businessId orderId items d =
     (if \<not> updateItemsSchema items then (d, Response 400 (ErrorBody ''validation''))
      else if falsyId orderId then (d, Response 400 (ErrorBody ''Invalid order ID''))
      else if falsyId businessId
      then (d, Response 401 (ErrorBody ''Unauthorized: Missing businessId''))
      else
        (case findOrder d (the orderId) of
           None \<Rightarrow> (d, Response 403 (ErrorBody ''Unauthorized or order not found''))
         | Some ord \<Rightarrow>
             if order_businessId ord = the businessId then
               (let d1 = updateOrder (the orderId)
                           (\<lambda>x. x\<lparr>order_items := map newItem items\<rparr>) d;
                    baseAmount = inputBaseAmount items;
                    d2 = (case findBill d1 (the orderId) of
                            Some b \<Rightarrow> d1
                          | None \<Rightarrow>
                              createBillRow
                                (emptyBill (the orderId) (the businessId) (round2 baseAmount)) d1);
                    b = the (findBill d2 (the orderId));
                    newTotal = totalAmount (calculateTotals baseAmount (billRates b));
                    d3 = updateBill (the orderId) (\<lambda>x. x\<lparr>bill_totalAmount := newTotal\<rparr>) d2;
                    d4 = updateOrder (the orderId) (\<lambda>x. x\<lparr>order_totalAmount := newTotal\<rparr>) d3
                in (d4, Response 200 (MessageBody ''Bill items updated successfully'')))
             else (d, Response 403 (ErrorBody ''Unauthorized or order not found''))))"

subsection \<open>GET /bill/:orderId\<close>

text \<open>
  The handler reads the order and the bill and writes nothing; it returns the datastore as
  it found it. \<open>new Date(bill.expiresAt) < new Date()\<close> compares the two instants, \<open>now\<close> being the
  clock at the time of the request.
\<close>

definition getBill :: "int \<Rightarrow> nat option \<Rightarrow> nat option \<Rightarrow> db \<Rightarrow> db \<times> response" where
  "getBill now businessId orderId d =
     (if falsyId orderId then (d, Response 400 (ErrorBody ''Invalid order ID''))
      else if falsyId businessId
      then (d, Response 401 (ErrorBody ''Unauthorized: Missing businessId''))
      else
        (case findOrder d (the orderId) of
           None \<Rightarrow> (d, Response 403 (ErrorBody ''Unauthorized access''))
         | Some ord \<Rightarrow>
             if order_businessId ord = the businessId then
               (case findBill d (the orderId) of
                  None \<Rightarrow> (d, Response 200 (MessageBody ''No bill found for this order''))
                | Some b \<Rightarrow>
                    (let b' = (case expiresAt b of
                                 None \<Rightarrow> b
                               | Some t \<Rightarrow>
                                   if t < now
                                   then b\<lparr>billStoreLink := None, modifiedBillStoreLink := None\<rparr>
                                   else b)
                     in (d, Response 200 (BillWithItems b' (order_items ord)))))
             else (d, Response 403 (ErrorBody ''Unauthorized access''))))"

section \<open>Orders: the order routes\<close>

text \<open>
  The status of an order as the routes derive it from the items, each time with the same two
  lines:
  \<^verbatim>\<open>const allItemsCompleted = order.items.every((item) => item.status === "Completed");
  const orderStatus = allItemsCompleted && order.items.length > 0 ? "Completed" : "Pending";\<close>
\<close>

definition allItemsCompleted :: "orderItem list \<Rightarrow> bool" where
  "allItemsCompleted items = list_all (\<lambda>item. item_status item = ''Completed'') items"

definition orderStatus :: "orderItem list \<Rightarrow> string" where
  "orderStatus items =
     (if allItemsCompleted items \<and> 0 < length items then ''Completed'' else ''Pending'')"

text \<open>
  The order id of these routes is \<open>parseInt(rawId.replace("ORD", ""), 10)\<close>; \<open>None\<close> stands for
  \<open>NaN\<close>, with which \<open>findUnique\<close> raises.
\<close>

subsection \<open>GET /:orderId\<close>

definition getOrder :: "nat option \<Rightarrow> db \<Rightarrow> db \<times> response" where
  "getOrder orderId d =
     (case orderId of
        None \<Rightarrow> (d, Response 500 (ErrorBody ''Invalid value provided''))
      | Some oid \<Rightarrow>
          (case findOrder d oid of
             None \<Rightarrow> (d, Response 404 (ErrorBody ''Order not found''))
           | Some ord \<Rightarrow> (d, Response 200 (OrderBody ord (orderStatus (order_items ord))))))"

subsection \<open>PATCH /:orderId/status\<close>


subsection \<open>PATCH /:orderId/items/:productId/status\<close>

definition setItemStatus :: "nat \<Rightarrow> string option \<Rightarrow> orderItem \<Rightarrow> orderItem" where
  "setItemStatus productId status item =
     (if item_productId item = Some productId
      then (case status of None \<Rightarrow> item | Some s \<Rightarrow> item\<lparr>item_status := s\<rparr>)
      else item)"

definition patchItemStatus ::
  "nat option \<Rightarrow> nat option \<Rightarrow> nat option \<Rightarrow> string option \<Rightarrow> db \<Rightarrow> db \<times> response" where
  "patchItemStatus businessId orderId productId status d =
     (if falsyId businessId
      then (d, Response 401 (ErrorBody ''Unauthorized: Missing businessId''))
      else
        (case orderId of
           None \<Rightarrow> (d, Response 500 (ErrorBody ''Server error while updating item status''))
         | Some oid \<Rightarrow>
             (case findOrder d oid of
                None \<Rightarrow> (d, Response 403 (ErrorBody ''Not allowed to update this order''))
              | Some existingOrder \<Rightarrow>
                  if order_businessId existingOrder = the businessId then
                    (case find (\<lambda>item. item_productId item = productId \<and> productId \<noteq> None)
                            (order_items existingOrder) of
                       None \<Rightarrow> (d, Response 404 (ErrorBody ''Item not found in order''))
                     | Some itemToUpdate \<Rightarrow>
                         (let d1 = updateOrder oid
                                     (\<lambda>x. x\<lparr>order_items :=
                                               map (setItemStatus (the productId) status)
                                                 (order_items x)\<rparr>) d
                          in case findOrder d1 oid of
                               None \<Rightarrow> (d1, Response 404 (ErrorBody ''Order not found''))
                             | Some updatedOrder \<Rightarrow>
                                 (let newOrderStatus = orderStatus (order_items updatedOrder);
                                      d2 = updateOrder oid
                                             (\<lambda>x. x\<lparr>order_status := newOrderStatus\<rparr>) d1
                                  in (d2, Response 200
                                            (ItemStatusBody (the productId)
                                               (case status of None \<Rightarrow> [] | Some s \<Rightarrow> s)
                                               newOrderStatus)))))
                  else (d, Response 403 (ErrorBody ''Not allowed to update this order'')))))"

section \<open>The expired-bill job: \<open>src/cron/deleteExpiredBills.ts\<close>\<close>

text \<open>
  What the job does outside the datastore is recorded as a trace: each request to the image
  store's destroy endpoint with the identifier it names and whether it succeeded, each row
  deletion that succeeded, and the error that the outer \<open>catch\<close> logs. The environment says
  which requests and which deletions fail.
\<close>

datatype event =
    DestroyImage string bool
  | RowDeleted nat
  | CronError

record env =
  findManyFails :: bool
  imageFails :: "string \<Rightarrow> bool"
  rowFails :: "nat \<Rightarrow> bool"

text \<open>
  \<open>deleteFromCloudinary\<close>: the request is inside a \<open>try\<close> whose \<open>catch\<close> only logs, so the
  function returns normally whether the request succeeded or not.
\<close>

definition deleteFromCloudinary :: "env \<Rightarrow> string \<Rightarrow> event list \<Rightarrow> event list" where
  "deleteFromCloudinary e publicId tr = tr @ [DestroyImage publicId (\<not> imageFails e publicId)]"

text \<open>
  The body of \<open>for (const bill of expiredBills)\<close>. The test \<open>if (bill.billStorePublicId)\<close> is one
  of truthiness: null and the empty string make no request. An exception of
  \<open>prisma.bill.delete\<close> leaves the loop for the \<open>catch\<close> around it.
\<close>

fun reapBills :: "env \<Rightarrow> bill list \<Rightarrow> bill list \<times> event list \<Rightarrow> bill list \<times> event list" where
  "reapBills e [] st = st"
| "reapBills e (b # rest) (tbl, tr) =
     (let tr1 = (case billStorePublicId b of
                   None \<Rightarrow> tr
                 | Some publicId \<Rightarrow>
                     if publicId = [] then tr else deleteFromCloudinary e publicId tr)
      in if rowFails e (bill_id b) then (tbl, tr1 @ [CronError])
         else reapBills e rest
                (filter (\<lambda>x. bill_id x \<noteq> bill_id b) tbl, tr1 @ [RowDeleted (bill_id b)]))"

text \<open>\<open>where: { expiresAt: { lte: now } }\<close>: a bill without an expiry is not selected.\<close>

definition expired :: "int \<Rightarrow> bill \<Rightarrow> bool" where
  "expired now b = (case expiresAt b of None \<Rightarrow> False | Some t \<Rightarrow> t \<le> now)"

definition deleteExpiredBills :: "env \<Rightarrow> int \<Rightarrow> db \<Rightarrow> db \<times> event list" where
  "deleteExpiredBills e now d =
     (if findManyFails e then (d, [CronError])
      else
        (let expiredBills = filter (expired now) (bills d);
             (tbl, tr) = reapBills e expiredBills (bills d, [])
         in (d\<lparr>bills := tbl\<rparr>, tr)))"

section \<open>Inventory: the loop at the end of \<open>POST /\<close>\<close>














section \<open>What a run of the job leaves behind\<close>

text \<open>
  The requests that the loop makes for one bill, the bills whose row deletion succeeds, and
  what the run records when it stops at a bill whose row deletion fails.
\<close>

definition imageEvents :: "env \<Rightarrow> bill \<Rightarrow> event list" where
  "imageEvents e b =
     (case billStorePublicId b of
        None \<Rightarrow> []
      | Some publicId \<Rightarrow>
          if publicId = [] then [] else [DestroyImage publicId (\<not> imageFails e publicId)])"

definition deletes :: "env \<Rightarrow> bill \<Rightarrow> bool" where
  "deletes e b = (\<not> rowFails e (bill_id b))"

definition failureEvents :: "env \<Rightarrow> bill list \<Rightarrow> event list" where
  "failureEvents e bs = (case bs of [] \<Rightarrow> [] | b # rest \<Rightarrow> imageEvents e b @ [CronError])"

section \<open>A bill that agrees with its order\<close>

text \<open>
  The invariant of the data model: the total stored on the bill is the total that
  \<open>calculateTotals\<close> gives for the items of the order and the rates stored on the bill.
\<close>

definition billMatchesOrder :: "order \<Rightarrow> bill \<Rightarrow> bool" where
  "billMatchesOrder ord b =
     (bill_totalAmount b
        = totalAmount (calculateTotals (baseAmountOf (order_items ord)) (billRates b)))"

section \<open>Example data\<close>

text \<open>An order of business 1 with one item that is still pending, and no bill.\<close>

definition teaItem :: orderItem where
  "teaItem =
     \<lparr>item_productId = Some 3, item_name = ''Tea'', item_price = 100, item_quantity = 1,
      item_status = ''Pending''\<rparr>"

definition teaOrder :: order where
  "teaOrder =
     \<lparr>order_id = 7, order_businessId = 1, order_status = ''Pending'', order_totalAmount = 100,
      order_items = [teaItem]\<rparr>"

definition teaDb :: db where
  "teaDb = \<lparr>orders = [teaOrder], bills = [], billSeq = 0\<rparr>"

text \<open>
  The bill that \<open>PUT /bill/7/store-link\<close> creates for that order at time 1000, with the image
  of the bill, and the one it creates when the request has \<open>isModified: true\<close>.
\<close>

definition linkBody :: storeLinkBody where
  "linkBody =
     \<lparr>sl_billStoreLink = ''https://img.example/bill7.png'',
      sl_cloudinaryPublicId = ''bills/bill7'', sl_isModified = None\<rparr>"

definition modifiedLinkBody :: storeLinkBody where
  "modifiedLinkBody =
     \<lparr>sl_billStoreLink = ''https://img.example/bill7m.png'',
      sl_cloudinaryPublicId = ''bills/bill7m'', sl_isModified = Some True\<rparr>"

definition teaBill :: bill where
  "teaBill =
     (emptyBill 7 1 100)
       \<lparr>bill_id := 1, billStoreLink := Some ''https://img.example/bill7.png'',
        billStorePublicId := Some ''bills/bill7'', expiresAt := Some 86401000\<rparr>"

definition modifiedTeaBill :: bill where
  "modifiedTeaBill =
     (emptyBill 7 1 100)
       \<lparr>bill_id := 1, modifiedBillStoreLink := Some ''https://img.example/bill7m.png'',
        modifiedBillStorePublicId := Some ''bills/bill7m'', expiresAt := Some 86401000\<rparr>"

text \<open>Two orders with a bill each, both bills expired at time 2000.\<close>

definition coffeeOrder :: order where
  "coffeeOrder = teaOrder\<lparr>order_id := 8, order_totalAmount := 50\<rparr>"

definition coffeeBill :: bill where
  "coffeeBill =
     (emptyBill 8 1 50)
       \<lparr>bill_id := 2, billStoreLink := Some ''https://img.example/bill8.png'',
        billStorePublicId := Some ''bills/bill8'', expiresAt := Some 1500\<rparr>"

definition twoBillsDb :: db where
  "twoBillsDb =
     \<lparr>orders = [teaOrder, coffeeOrder],
      bills = [teaBill\<lparr>expiresAt := Some 1000\<rparr>, coffeeBill], billSeq = 2\<rparr>"

text \<open>
  An environment in which every request to the image store fails, one in which the deletion
  of the row of bill 1 fails, and one in which nothing fails.
\<close>

definition noImageEnv :: env where
  "noImageEnv = \<lparr>findManyFails = False, imageFails = (\<lambda>p. True), rowFails = (\<lambda>i. False)\<rparr>"


definition quietEnv :: env where
  "quietEnv = \<lparr>findManyFails = False, imageFails = (\<lambda>p. False), rowFails = (\<lambda>i. False)\<rparr>"

text \<open>The same order once \<open>POST /bill\<close> has billed it with a low VAT rate of 10 percent.\<close>

definition billedTeaBill :: bill where
  "billedTeaBill = (emptyBill 7 1 110)\<lparr>bill_id := 1, bill_vatLow := Some 10\<rparr>"

definition billedTeaDb :: db where
  "billedTeaDb =
     \<lparr>orders = [teaOrder\<lparr>order_status := ''Completed'', order_totalAmount := 110\<rparr>],
      bills = [billedTeaBill], billSeq = 1\<rparr>"




section \<open>Properties\<close>

subsection \<open>Rounding\<close>

lemma floor_rat_numeral [simp]:
  "\<lfloor>numeral a / numeral b :: rat\<rfloor> = numeral a div numeral b"
  using floor_divide_of_int_eq [of "numeral a" "numeral b", where ?'a = rat] by simp

lemma floor_rat_one_numeral [simp]:
  "\<lfloor>1 / numeral b :: rat\<rfloor> = 1 div numeral b"
  using floor_divide_of_int_eq [of 1 "numeral b", where ?'a = rat] by simp

lemma round2_nonneg: "0 \<le> x \<Longrightarrow> 0 \<le> round2 x"
  by (simp add: round2_def toDecimalPlaces_def)

lemma round2_nonpos: "x \<le> 0 \<Longrightarrow> round2 x \<le> 0"
  by (cases "x = 0") (simp_all add: round2_def toDecimalPlaces_def)

lemma round2_zero [simp]: "round2 0 = 0"
  by (simp add: round2_def toDecimalPlaces_def)

lemma round2_mono: "x \<le> y \<Longrightarrow> round2 x \<le> round2 y"
proof -
  assume xy: "x \<le> y"
  show ?thesis
  proof (cases "0 \<le> x")
    case True
    with xy have "0 \<le> y" by simp
    have "\<lfloor>x * 10 ^ 2 + 1 / 2\<rfloor> \<le> \<lfloor>y * 10 ^ 2 + 1 / 2\<rfloor>"
      using xy by (intro floor_mono) simp
    then show ?thesis using True \<open>0 \<le> y\<close>
      by (simp add: round2_def toDecimalPlaces_def divide_right_mono)
  next
    case False
    show ?thesis
    proof (cases "0 \<le> y")
      case True
      have "round2 x \<le> 0" using False by (simp add: round2_nonpos)
      also have "0 \<le> round2 y" using True by (rule round2_nonneg)
      finally show ?thesis .
    next
      case yneg: False
      have "\<lfloor>- y * 10 ^ 2 + 1 / 2\<rfloor> \<le> \<lfloor>- x * 10 ^ 2 + 1 / 2\<rfloor>"
        using xy by (intro floor_mono) simp
      then show ?thesis using False yneg
        by (simp add: round2_def toDecimalPlaces_def divide_right_mono)
    qed
  qed
qed

text \<open>The tax amounts before rounding, whichever branch of the conditional is taken.\<close>

lemma truthy_amount:
  "(if truthy r then b * the r / 100 else 0) = b * rateOf r / 100"
  by (cases r) auto

lemma calculateTotals_components:
  "vatLowAmount (calculateTotals b r) = round2 (b * rateOf (vatLow r) / 100)"
  "vatHighAmount (calculateTotals b r) = round2 (b * rateOf (vatHigh r) / 100)"
  "serviceTaxAmount (calculateTotals b r) = round2 (b * rateOf (serviceTax r) / 100)"
  "serviceChargeAmount (calculateTotals b r) = round2 (b * rateOf (serviceCharge r) / 100)"
  by (simp_all add: calculateTotals_def Let_def truthy_amount)

lemma calculateTotals_total:
  "totalAmount (calculateTotals b r) =
     round2 (b * rateOf (vatLow r) / 100 + b * rateOf (vatHigh r) / 100
             + b * rateOf (serviceTax r) / 100 + b * rateOf (serviceCharge r) / 100 + b)"
  by (simp add: calculateTotals_def Let_def truthy_amount)

lemma amount_mono:
  assumes "0 \<le> b" "b \<le> b'" "0 \<le> rateOf r" "rateOf r \<le> rateOf r'"
  shows "b * rateOf r / 100 \<le> b' * rateOf r' / 100"
proof -
  have "b * rateOf r \<le> b' * rateOf r'"
    using assms by (intro mult_mono) auto
  then show ?thesis by (simp add: divide_right_mono)
qed

section \<open>Claims about the tax calculator\<close>




text \<open>
  C8: for a non-negative base amount and rates in \<open>[0, 100]\<close> or null, no component of the
  result decreases when the base amount or any of the rates is increased.
\<close>

theorem C8_calculateTotals_monotone:
  assumes "0 \<le> baseAmount" and "baseAmount \<le> baseAmount'"
    and "rates_ok rates" and "rates_ok rates'" and "rates_le rates rates'"
  shows "vatLowAmount (calculateTotals baseAmount rates)
           \<le> vatLowAmount (calculateTotals baseAmount' rates')
       \<and> vatHighAmount (calculateTotals baseAmount rates)
           \<le> vatHighAmount (calculateTotals baseAmount' rates')
       \<and> serviceTaxAmount (calculateTotals baseAmount rates)
           \<le> serviceTaxAmount (calculateTotals baseAmount' rates')
       \<and> serviceChargeAmount (calculateTotals baseAmount rates)
           \<le> serviceChargeAmount (calculateTotals baseAmount' rates')
       \<and> totalAmount (calculateTotals baseAmount rates)
           \<le> totalAmount (calculateTotals baseAmount' rates')"
proof -
  have a: "baseAmount * rateOf (vatLow rates) / 100 \<le> baseAmount' * rateOf (vatLow rates') / 100"
    using assms by (intro amount_mono) (simp_all add: rates_ok_def rates_le_def rate_ok_def rate_le_def)
  have b: "baseAmount * rateOf (vatHigh rates) / 100 \<le> baseAmount' * rateOf (vatHigh rates') / 100"
    using assms by (intro amount_mono) (simp_all add: rates_ok_def rates_le_def rate_ok_def rate_le_def)
  have c: "baseAmount * rateOf (serviceTax rates) / 100
             \<le> baseAmount' * rateOf (serviceTax rates') / 100"
    using assms by (intro amount_mono) (simp_all add: rates_ok_def rates_le_def rate_ok_def rate_le_def)
  have d: "baseAmount * rateOf (serviceCharge rates) / 100
             \<le> baseAmount' * rateOf (serviceCharge rates') / 100"
    using assms by (intro amount_mono) (simp_all add: rates_ok_def rates_le_def rate_ok_def rate_le_def)
  have t: "totalAmount (calculateTotals baseAmount rates)
             \<le> totalAmount (calculateTotals baseAmount' rates')"
    unfolding calculateTotals_total
    using a b c d assms(2) by (intro round2_mono) linarith
  show ?thesis
    using a b c d t by (simp add: calculateTotals_components round2_mono)
qed

theorem C8_calculateTotals_monotone_witness:
  "(0::rat) \<le> 33 \<and> (33::rat) \<le> 50
   \<and> rates_ok \<lparr>vatLow = Some 10, vatHigh = None, serviceTax = Some 0, serviceCharge = Some 5\<rparr>
   \<and> rates_ok \<lparr>vatLow = Some 10, vatHigh = Some 7, serviceTax = Some 0, serviceCharge = Some 100\<rparr>
   \<and> rates_le \<lparr>vatLow = Some 10, vatHigh = None, serviceTax = Some 0, serviceCharge = Some 5\<rparr>
        \<lparr>vatLow = Some 10, vatHigh = Some 7, serviceTax = Some 0, serviceCharge = Some 100\<rparr>
   \<and> totalAmount (calculateTotals 33
        \<lparr>vatLow = Some 10, vatHigh = None, serviceTax = Some 0, serviceCharge = Some 5\<rparr>)
      \<le> totalAmount (calculateTotals 50
        \<lparr>vatLow = Some 10, vatHigh = Some 7, serviceTax = Some 0, serviceCharge = Some 100\<rparr>)"
proof -
  have h: "rates_ok \<lparr>vatLow = Some 10, vatHigh = None, serviceTax = Some 0, serviceCharge = Some 5\<rparr>"
    "rates_ok \<lparr>vatLow = Some 10, vatHigh = Some 7, serviceTax = Some 0, serviceCharge = Some 100\<rparr>"
    "rates_le \<lparr>vatLow = Some 10, vatHigh = None, serviceTax = Some 0, serviceCharge = Some 5\<rparr>
        \<lparr>vatLow = Some 10, vatHigh = Some 7, serviceTax = Some 0, serviceCharge = Some 100\<rparr>"
    by (simp_all add: rates_ok_def rates_le_def rate_ok_def rate_le_def)
  show ?thesis
    using h C8_calculateTotals_monotone [of 33 50, OF _ _ h] by simp
qed

section \<open>Lookups after updates\<close>

lemma find_map_update:
  assumes "\<And>x. k (f x) = k x"
  shows "find (\<lambda>x. k x = a') (map (\<lambda>x. if k x = a then f x else x) xs)
         = (if a' = a then map_option f (find (\<lambda>x. k x = a') xs) else find (\<lambda>x. k x = a') xs)"
  using assms by (induction xs) auto

lemma findOrder_updateOrder:
  assumes "\<And>x. order_id (f x) = order_id x"
  shows "findOrder (updateOrder oid f d) oid'
         = (if oid' = oid then map_option f (findOrder d oid') else findOrder d oid')"
  unfolding findOrder_def updateOrder_def
  using find_map_update [of order_id f oid' oid "orders d", OF assms] by simp

lemma findBill_updateOrder [simp]: "findBill (updateOrder oid f d) oid' = findBill d oid'"
  by (simp add: findBill_def updateOrder_def)

lemma findOrder_updateBill [simp]: "findOrder (updateBill oid f d) oid' = findOrder d oid'"
  by (simp add: findOrder_def updateBill_def)

lemma findBill_updateBill:
  assumes "\<And>x. bill_orderId (f x) = bill_orderId x"
  shows "findBill (updateBill oid f d) oid'
         = (if oid' = oid then map_option f (findBill d oid') else findBill d oid')"
  unfolding findBill_def updateBill_def
  using find_map_update [of bill_orderId f oid' oid "bills d", OF assms] by simp

lemma findOrder_createBillRow [simp]: "findOrder (createBillRow b d) oid = findOrder d oid"
  by (simp add: findOrder_def createBillRow_def)

lemma find_append_None: "find P xs = None \<Longrightarrow> find P (xs @ ys) = find P ys"
  by (induction xs) (auto split: if_splits)

lemma findBill_createBillRow:
  assumes "findBill d oid = None" and "bill_orderId b = oid"
  shows "findBill (createBillRow b d) oid = Some (b\<lparr>bill_id := Suc (billSeq d)\<rparr>)"
  using assms by (simp add: findBill_def createBillRow_def find_append_None)

section \<open>Claims about the status of an order\<close>





lemmas tea_defs = teaDb_def teaOrder_def teaItem_def findOrder_def updateOrder_def

lemma tea_patch_item:
  "patchItemStatus (Some 1) (Some 7) (Some 3) (Some ''Completed'') teaDb
     = (\<lparr>orders = [teaOrder\<lparr>order_status := ''Completed'',
                            order_items := [teaItem\<lparr>item_status := ''Completed''\<rparr>]\<rparr>],
         bills = [], billSeq = 0\<rparr>,
        Response 200 (ItemStatusBody 3 ''Completed'' ''Completed''))"
  by (simp add: patchItemStatus_def tea_defs setItemStatus_def orderStatus_def
      allItemsCompleted_def Let_def)




lemma tea_create_bill:
  "createBill (Some 1) 7
      \<lparr>vatLow = Some 10, vatHigh = None, serviceTax = None, serviceCharge = None\<rparr> teaDb
     = (\<lparr>orders = [teaOrder\<lparr>order_status := ''Completed'', order_totalAmount := 110\<rparr>],
         bills = [(emptyBill 7 1 110)\<lparr>bill_id := 1, bill_vatLow := Some 10\<rparr>],
         billSeq = 1\<rparr>,
        Response 201 (BillBody ((emptyBill 7 1 110)\<lparr>bill_id := 1, bill_vatLow := Some 10\<rparr>)
                        ''Bill created successfully''))"
  by (simp add: createBill_def tea_defs findBill_def createBillRow_def emptyBill_def
      baseAmountOf_def calculateTotals_def round2_def toDecimalPlaces_def
      rates_ok_def rate_ok_def Let_def)


text \<open>
  C4: the status derived from the items of an order is \<open>Completed\<close> if and only if there is at
  least one item and every item is \<open>Completed\<close>, and \<open>Pending\<close> otherwise. An order without
  items derives \<open>Pending\<close>; the order whose single item is pending is shown as \<open>Pending\<close>, and
  once the item-status route has set that item to \<open>Completed\<close> it is shown as \<open>Completed\<close>.
\<close>

theorem C4_order_status_derived:
  "orderStatus items
     = (if items \<noteq> [] \<and> (\<forall>item\<in>set items. item_status item = ''Completed'')
        then ''Completed'' else ''Pending'')
   \<and> orderStatus [] = ''Pending''
   \<and> snd (getOrder (Some 7) teaDb) = Response 200 (OrderBody teaOrder ''Pending'')
   \<and> snd (patchItemStatus (Some 1) (Some 7) (Some 3) (Some ''Completed'') teaDb)
       = Response 200 (ItemStatusBody 3 ''Completed'' ''Completed'')
   \<and> snd (getOrder (Some 7)
            (fst (patchItemStatus (Some 1) (Some 7) (Some 3) (Some ''Completed'') teaDb)))
       = Response 200
           (OrderBody (teaOrder\<lparr>order_status := ''Completed'',
                                order_items := [teaItem\<lparr>item_status := ''Completed''\<rparr>]\<rparr>)
              ''Completed'')"
proof -
  have 1: "orderStatus items
     = (if items \<noteq> [] \<and> (\<forall>item\<in>set items. item_status item = ''Completed'')
        then ''Completed'' else ''Pending'')"
    by (auto simp: orderStatus_def allItemsCompleted_def list_all_iff)
  have 2: "orderStatus [] = ''Pending''"
    by (simp add: orderStatus_def)
  have 3: "snd (getOrder (Some 7) teaDb) = Response 200 (OrderBody teaOrder ''Pending'')"
    by (simp add: getOrder_def tea_defs orderStatus_def allItemsCompleted_def)
  have 4: "snd (patchItemStatus (Some 1) (Some 7) (Some 3) (Some ''Completed'') teaDb)
       = Response 200 (ItemStatusBody 3 ''Completed'' ''Completed'')"
    unfolding tea_patch_item by simp
  have 5: "snd (getOrder (Some 7)
            (fst (patchItemStatus (Some 1) (Some 7) (Some 3) (Some ''Completed'') teaDb)))
       = Response 200
           (OrderBody (teaOrder\<lparr>order_status := ''Completed'',
                                order_items := [teaItem\<lparr>item_status := ''Completed''\<rparr>]\<rparr>)
              ''Completed'')"
    unfolding tea_patch_item
    by (simp add: getOrder_def findOrder_def teaOrder_def teaItem_def orderStatus_def
        allItemsCompleted_def)
  from 1 2 3 4 5 show ?thesis by blast
qed

theorem C4_order_status_derived_witness:
  "orderStatus [teaItem\<lparr>item_status := ''Completed''\<rparr>] = ''Completed''
   \<and> orderStatus [teaItem\<lparr>item_status := ''Completed''\<rparr>, teaItem] = ''Pending''"
  using C4_order_status_derived [of "[teaItem\<lparr>item_status := ''Completed''\<rparr>]"]
    C4_order_status_derived [of "[teaItem\<lparr>item_status := ''Completed''\<rparr>, teaItem]"]
  by (simp add: teaItem_def)

section \<open>Claims about the bill routes\<close>

lemma tea_store_link:
  "storeLink 1000 (Some 1) (Some 7) linkBody teaDb
     = (teaDb\<lparr>bills := [teaBill], billSeq := 1\<rparr>,
        Response 201 (MessageBody ''Bill created with store link''))"
  by (simp add: storeLink_def storeLinkSchema_def linkBody_def setLink_def tea_defs
      findBill_def createBillRow_def emptyBill_def teaBill_def baseAmountOf_def
      round2_def toDecimalPlaces_def Let_def)

text \<open>
  C10: when the order has a bill whose \<open>expiresAt\<close> is strictly in the past, \<open>GET /bill/:orderId\<close>
  answers 200 with the bill, in which \<open>billStoreLink\<close> and \<open>modifiedBillStoreLink\<close> are null; the
  read deletes and changes nothing in the datastore.
\<close>

theorem C10_expired_links_masked:
  assumes "\<not> falsyId orderId" and "\<not> falsyId businessId"
    and "findOrder d (the orderId) = Some ord" and "order_businessId ord = the businessId"
    and "findBill d (the orderId) = Some b" and "expiresAt b = Some t" and "t < now"
  shows "getBill now businessId orderId d
     = (d, Response 200
             (BillWithItems (b\<lparr>billStoreLink := None, modifiedBillStoreLink := None\<rparr>)
                (order_items ord)))"
  using assms by (simp add: getBill_def)

theorem C10_expired_links_masked_witness:
  "getBill 86401001 (Some 1) (Some 7) (teaDb\<lparr>bills := [teaBill], billSeq := 1\<rparr>)
     = (teaDb\<lparr>bills := [teaBill], billSeq := 1\<rparr>,
        Response 200
          (BillWithItems (teaBill\<lparr>billStoreLink := None, modifiedBillStoreLink := None\<rparr>)
             [teaItem]))
   \<and> findBill (teaDb\<lparr>bills := [teaBill], billSeq := 1\<rparr>) 7 = Some teaBill
   \<and> billStoreLink teaBill = Some ''https://img.example/bill7.png''"
proof -
  have h: "\<not> falsyId (Some (7::nat))" "\<not> falsyId (Some (1::nat))"
    "findOrder (teaDb\<lparr>bills := [teaBill], billSeq := 1\<rparr>) (the (Some 7)) = Some teaOrder"
    "order_businessId teaOrder = the (Some 1)"
    "findBill (teaDb\<lparr>bills := [teaBill], billSeq := 1\<rparr>) (the (Some 7)) = Some teaBill"
    "expiresAt teaBill = Some 86401000" "(86401000::int) < 86401001"
    by (simp_all add: tea_defs findBill_def teaBill_def emptyBill_def)
  have "order_items teaOrder = [teaItem]" "billStoreLink teaBill = Some ''https://img.example/bill7.png''"
    by (simp_all add: teaOrder_def teaBill_def)
  with h C10_expired_links_masked [OF h] show ?thesis by simp
qed

section \<open>Claims about the expired-bill job\<close>

lemma reapBills_table:
  "fst (reapBills e bs (tbl, tr))
     = filter (\<lambda>x. bill_id x \<notin> bill_id ` set (takeWhile (deletes e) bs)) tbl"
proof (induction bs arbitrary: tbl tr)
  case Nil
  then show ?case by simp
next
  case (Cons b bs)
  show ?case
  proof (cases "rowFails e (bill_id b)")
    case True
    then show ?thesis by (simp add: deletes_def Let_def)
  next
    case False
    then show ?thesis
      by (simp add: deletes_def Let_def Cons.IH [unfolded deletes_def] conj_commute)
  qed
qed

lemma reapBills_trace:
  "snd (reapBills e bs (tbl, tr))
     = tr @ concat (map (\<lambda>b. imageEvents e b @ [RowDeleted (bill_id b)]) (takeWhile (deletes e) bs))
          @ failureEvents e (dropWhile (deletes e) bs)"
proof (induction bs arbitrary: tbl tr)
  case Nil
  then show ?case by (simp add: failureEvents_def)
next
  case (Cons b bs)
  show ?case
  proof (cases "rowFails e (bill_id b)")
    case True
    then show ?thesis
      by (simp add: deletes_def Let_def failureEvents_def imageEvents_def deleteFromCloudinary_def
          split: option.splits)
  next
    case False
    then show ?thesis
      by (simp add: deletes_def Let_def Cons.IH [unfolded deletes_def] imageEvents_def
          deleteFromCloudinary_def split: option.splits)
  qed
qed

lemma deleteExpiredBills_table:
  "\<not> findManyFails e \<Longrightarrow>
   bills (fst (deleteExpiredBills e now d))
     = filter (\<lambda>x. bill_id x \<notin> bill_id ` set (takeWhile (deletes e)
                                               (filter (expired now) (bills d)))) (bills d)"
  by (simp add: deleteExpiredBills_def Let_def case_prod_unfold reapBills_table)

lemma deleteExpiredBills_trace:
  "\<not> findManyFails e \<Longrightarrow>
   snd (deleteExpiredBills e now d)
     = concat (map (\<lambda>b. imageEvents e b @ [RowDeleted (bill_id b)])
                 (takeWhile (deletes e) (filter (expired now) (bills d))))
       @ failureEvents e (dropWhile (deletes e) (filter (expired now) (bills d)))"
  by (simp add: deleteExpiredBills_def Let_def case_prod_unfold reapBills_trace)

text \<open>
  When no row deletion fails, the run handles every selected bill in turn: one request to the
  image store with the bill's \<open>billStorePublicId\<close> when it has one, then the deletion of the row.
\<close>

lemma deleteExpiredBills_trace_complete:
  assumes "\<not> findManyFails e" and "\<forall>b\<in>set (bills d). expired now b \<longrightarrow> \<not> rowFails e (bill_id b)"
  shows "snd (deleteExpiredBills e now d)
     = concat (map (\<lambda>b. imageEvents e b @ [RowDeleted (bill_id b)])
                 (filter (expired now) (bills d)))"
proof -
  have tw: "takeWhile (deletes e) (filter (expired now) (bills d)) = filter (expired now) (bills d)"
    using assms(2) by (simp add: takeWhile_eq_all_conv deletes_def)
  have dw: "dropWhile (deletes e) (filter (expired now) (bills d)) = []"
    using assms(2) by (simp add: deletes_def)
  show ?thesis
    by (simp add: deleteExpiredBills_trace [OF assms(1)] tw dw failureEvents_def)
qed

lemma deletes_imageFails [simp]: "deletes (e\<lparr>imageFails := f\<rparr>) = deletes e"
  by (simp add: deletes_def fun_eq_iff)


lemmas reaper_defs = deleteExpiredBills_def twoBillsDb_def teaBill_def coffeeBill_def
  emptyBill_def expired_def deleteFromCloudinary_def Let_def


lemma two_bills_no_image:
  "deleteExpiredBills noImageEnv 2000 twoBillsDb
     = (twoBillsDb\<lparr>bills := []\<rparr>,
        [DestroyImage ''bills/bill7'' False, RowDeleted 1,
         DestroyImage ''bills/bill8'' False, RowDeleted 2])"
  by (simp add: reaper_defs noImageEnv_def)




lemma tea_store_modified:
  "storeLink 1000 (Some 1) (Some 7) modifiedLinkBody teaDb
     = (teaDb\<lparr>bills := [modifiedTeaBill], billSeq := 1\<rparr>,
        Response 201 (MessageBody ''Bill created with store link''))"
  by (simp add: storeLink_def storeLinkSchema_def modifiedLinkBody_def setLink_def tea_defs
      findBill_def createBillRow_def emptyBill_def modifiedTeaBill_def baseAmountOf_def
      round2_def toDecimalPlaces_def Let_def)

text \<open>
  C6: for each selected bill that has a stored image identifier the job is to ask the image
  store once to delete that identifier, before it deletes the row. A bill has two of them,
  \<open>billStorePublicId\<close> and \<open>modifiedBillStorePublicId\<close>, and the loop reads the first only. The
  store-link route with \<open>isModified: true\<close> creates a bill that has the second only; once it has
  expired the job deletes its row and makes no request, and the image stays in the store.
\<close>

theorem C6_modified_image_not_deleted:
  "storeLink 1000 (Some 1) (Some 7) modifiedLinkBody teaDb
     = (teaDb\<lparr>bills := [modifiedTeaBill], billSeq := 1\<rparr>,
        Response 201 (MessageBody ''Bill created with store link''))
   \<and> modifiedBillStorePublicId modifiedTeaBill = Some ''bills/bill7m''
   \<and> expired 86401000 modifiedTeaBill
   \<and> deleteExpiredBills quietEnv 86401000 (teaDb\<lparr>bills := [modifiedTeaBill], billSeq := 1\<rparr>)
       = (teaDb\<lparr>bills := [], billSeq := 1\<rparr>, [RowDeleted 1])"
  unfolding tea_store_modified
  by (simp add: deleteExpiredBills_def modifiedTeaBill_def emptyBill_def expired_def
      quietEnv_def teaDb_def Let_def)

section \<open>Claims about the stored total of a bill\<close>

lemma billRates_simps [simp]:
  "vatLow (billRates b) = bill_vatLow b" "vatHigh (billRates b) = bill_vatHigh b"
  "serviceTax (billRates b) = bill_serviceTax b" "serviceCharge (billRates b) = bill_serviceCharge b"
  by (simp_all add: billRates_def)

lemma createBill_consistent:
  assumes "createBill businessId oid rates d = (d', Response 201 b)"
  shows "\<exists>ord bl. findOrder d' oid = Some ord \<and> findBill d' oid = Some bl
           \<and> billMatchesOrder ord bl"
  using assms
  by (auto simp: createBill_def Let_def findOrder_updateOrder findBill_createBillRow
      billMatchesOrder_def billRates_def emptyBill_def calculateTotals_total
      split: if_splits option.splits)

lemma storeLink_created_consistent:
  assumes "storeLink now businessId orderId body d = (d', Response 201 b)"
  shows "\<exists>ord bl. findOrder d' (the orderId) = Some ord
           \<and> findBill d' (the orderId) = Some bl \<and> billMatchesOrder ord bl"
  using assms
  by (auto simp: storeLink_def Let_def findBill_createBillRow setLink_def
      billMatchesOrder_def calculateTotals_total emptyBill_def
      split: if_splits option.splits)

lemma baseAmount_newItems_aux:
  "foldl (\<lambda>sum item. sum + item_price item * of_int (item_quantity item)) a (map newItem items)
     = foldl (\<lambda>sum item. sum + in_price item * of_int (in_quantity item)) a items"
  by (induction items arbitrary: a) (simp_all add: newItem_def)

lemma baseAmount_newItems: "baseAmountOf (map newItem items) = inputBaseAmount items"
  by (simp add: baseAmountOf_def inputBaseAmount_def baseAmount_newItems_aux)

lemma updateItems_consistent:
  assumes "updateItems businessId orderId items d = (d', Response 200 b)"
  shows "\<exists>ord bl. findOrder d' (the orderId) = Some ord
           \<and> findBill d' (the orderId) = Some bl \<and> order_items ord = map newItem items
           \<and> billMatchesOrder ord bl"
  using assms
  by (auto simp: updateItems_def Let_def findOrder_updateOrder findBill_updateBill
      findBill_createBillRow billMatchesOrder_def baseAmount_newItems billRates_def
      emptyBill_def calculateTotals_total
      split: if_splits option.splits)

lemma updateCharges_consistent:
  assumes "updateCharges businessId orderId rates d = (d', Response 200 b)"
    and "vatLow rates \<noteq> None" and "vatHigh rates \<noteq> None"
    and "serviceTax rates \<noteq> None" and "serviceCharge rates \<noteq> None"
  shows "\<exists>ord bl. findOrder d' (the orderId) = Some ord
           \<and> findBill d' (the orderId) = Some bl \<and> billMatchesOrder ord bl"
  using assms
  by (auto simp: updateCharges_def Let_def findOrder_updateOrder findBill_updateBill
      billMatchesOrder_def billRates_def calculateTotals_total
      split: if_splits option.splits)

lemma billed_update_charges:
  "updateCharges (Some 1) (Some 7)
      \<lparr>vatLow = None, vatHigh = Some 5, serviceTax = None, serviceCharge = None\<rparr> billedTeaDb
     = (\<lparr>orders = [teaOrder\<lparr>order_status := ''Completed'', order_totalAmount := 105\<rparr>],
         bills = [billedTeaBill\<lparr>bill_vatHigh := Some 5, bill_totalAmount := 105\<rparr>],
         billSeq = 1\<rparr>,
        Response 200 (BillBody (billedTeaBill\<lparr>bill_vatHigh := Some 5, bill_totalAmount := 105\<rparr>)
                        ''Charges updated successfully''))"
  by (simp add: updateCharges_def billedTeaDb_def billedTeaBill_def teaOrder_def teaItem_def
      findOrder_def findBill_def updateOrder_def updateBill_def emptyBill_def
      baseAmountOf_def calculateTotals_def round2_def toDecimalPlaces_def Let_def)

text \<open>
  C2: after each of the four operations the total stored on the bill is to be the total of
  \<open>calculateTotals\<close> for the items of the order and the rates stored on the bill. Creating a
  bill, creating one through the store-link route and replacing the items keep it so, and
  so does \<open>update-charges\<close> when the request gives all four rates (the four lemmas above).
  When the request leaves a rate out or sends null for it, \<open>update-charges\<close> computes the total
  with that rate as zero and keeps the stored rate: on the bill with a low VAT of 10 percent,
  the request \<open>{vatHigh: 5}\<close> stores the total 105 next to the rates 10 and 5, for which the total
  is 115.
\<close>

theorem C2_update_charges_stale_total:
  "createBill (Some 1) 7
      \<lparr>vatLow = Some 10, vatHigh = None, serviceTax = None, serviceCharge = None\<rparr> teaDb
     = (billedTeaDb, Response 201 (BillBody billedTeaBill ''Bill created successfully''))
   \<and> fst (updateCharges (Some 1) (Some 7)
        \<lparr>vatLow = None, vatHigh = Some 5, serviceTax = None, serviceCharge = None\<rparr> billedTeaDb)
     = \<lparr>orders = [teaOrder\<lparr>order_status := ''Completed'', order_totalAmount := 105\<rparr>],
        bills = [billedTeaBill\<lparr>bill_vatHigh := Some 5, bill_totalAmount := 105\<rparr>],
        billSeq = 1\<rparr>
   \<and> billRates (billedTeaBill\<lparr>bill_vatHigh := Some 5, bill_totalAmount := 105\<rparr>)
     = \<lparr>vatLow = Some 10, vatHigh = Some 5, serviceTax = None, serviceCharge = None\<rparr>
   \<and> totalAmount (calculateTotals
        (baseAmountOf (order_items (teaOrder\<lparr>order_status := ''Completed'',
                                             order_totalAmount := 105\<rparr>)))
        (billRates (billedTeaBill\<lparr>bill_vatHigh := Some 5, bill_totalAmount := 105\<rparr>)))
     = 115
   \<and> bill_totalAmount (billedTeaBill\<lparr>bill_vatHigh := Some 5, bill_totalAmount := 105\<rparr>) = 105"
  unfolding billed_update_charges tea_create_bill
  by (simp add: billedTeaDb_def billedTeaBill_def billRates_def emptyBill_def teaOrder_def
      teaItem_def baseAmountOf_def calculateTotals_def round2_def toDecimalPlaces_def Let_def)

section \<open>Claims about the inventory\<close>





end
